theory Spec2Isabelle
  imports Complex_Main "HOL-Library.Char_ord" "HOL-Library.List_Lexorder" "HOL-Library.Sublist"
begin

section \<open>Cookie records\<close>

text \<open>
  A cookie as \<open>chrome.cookies.getAll\<close> hands it to \<open>background.js\<close>. Strings are
  lists of characters, the two flags and \<open>session\<close> are booleans, \<open>sameSite\<close> is the
  string the source compares with \<open>===\<close>, and \<open>expirationDate\<close> is a number of seconds
  that is absent (\<open>undefined\<close>) for session cookies. The cookie store reports the
  same-site policy as one of the strings \<open>strict\<close>, \<open>lax\<close>, \<open>no_restriction\<close> and
  \<open>unspecified\<close>, in lower case.
\<close>

record cookie =
  name :: string
  cookie_value :: string
  domain :: string
  path :: string
  secure :: bool
  httpOnly :: bool
  sameSite :: string
  session :: bool
  expirationDate :: "rat option"
  hostOnly :: bool
  storeId :: string

text \<open>
  The source tests \<open>cookie.expirationDate\<close> for truthiness: \<open>undefined\<close> and the
  number \<open>0\<close> are falsy, every other number is truthy.
\<close>

definition truthy_number :: "rat option \<Rightarrow> bool" where
  "truthy_number d = (case d of None \<Rightarrow> False | Some x \<Rightarrow> x \<noteq> 0)"

section \<open>Classification\<close>

text \<open>\<open>categorizeCookie\<close>, lines 160 to 166: a chain of early returns.\<close>

definition categorizeCookie :: "cookie \<Rightarrow> string" where
  "categorizeCookie c =
     (if httpOnly c \<and> secure c then ''secure-httponly''
      else if httpOnly c then ''httponly''
      else if secure c then ''secure''
      else if session c then ''session''
      else ''regular'')"

text \<open>
  The priority order as the specification words it: a list of rules, each a test and a
  category, of which the first one whose test holds gives the category.
\<close>

definition category_rules :: "((cookie \<Rightarrow> bool) \<times> string) list" where
  "category_rules =
     [(\<lambda>c. httpOnly c \<and> secure c, ''secure-httponly''),
      (\<lambda>c. httpOnly c, ''httponly''),
      (\<lambda>c. secure c, ''secure''),
      (\<lambda>c. session c, ''session''),
      (\<lambda>c. True, ''regular'')]"

fun first_matching_rule :: "((cookie \<Rightarrow> bool) \<times> string) list \<Rightarrow> cookie \<Rightarrow> string option" where
  "first_matching_rule [] c = None"
| "first_matching_rule ((p, l) # rs) c = (if p c then Some l else first_matching_rule rs c)"

text \<open>
  \<open>assessSecurityLevel\<close>, lines 171 to 182. The running \<open>score\<close> of the source is the
  function \<open>securityScore\<close>; the five statements that add to it are kept in their order.
\<close>

definition securityScore :: "cookie \<Rightarrow> nat" where
  "securityScore c =
     (let score = 0;
          score = (if secure c then score + 2 else score);
          score = (if httpOnly c then score + 2 else score);
          score = (if sameSite c = ''Strict'' then score + 2 else score);
          score = (if sameSite c = ''Lax'' then score + 1 else score);
          score = (if \<not> session c \<and> truthy_number (expirationDate c) then score + 1 else score)
      in score)"

definition assessSecurityLevel :: "cookie \<Rightarrow> string" where
  "assessSecurityLevel c =
     (let score = securityScore c
      in if score \<ge> 6 then ''high'' else if score \<ge> 3 then ''medium'' else ''low'')"

text \<open>The five signals of the score, each as a number of points.\<close>

definition points :: "bool \<Rightarrow> nat \<Rightarrow> nat" where
  "points b n = (if b then n else 0)"

definition persistent_with_expiration :: "cookie \<Rightarrow> bool" where
  "persistent_with_expiration c \<longleftrightarrow> \<not> session c \<and> truthy_number (expirationDate c)"

text \<open>
  The score and the tier as the specification words them, over the same-site policy of
  the cookie as the store reports it: 2 points for the policy Strict, 1 for Lax.
\<close>

definition policy_is_strict :: "cookie \<Rightarrow> bool" where
  "policy_is_strict c \<longleftrightarrow> sameSite c = ''strict''"

definition policy_is_lax :: "cookie \<Rightarrow> bool" where
  "policy_is_lax c \<longleftrightarrow> sameSite c = ''lax''"

definition specified_score :: "cookie \<Rightarrow> nat" where
  "specified_score c =
     points (secure c) 2 + points (httpOnly c) 2 + points (policy_is_strict c) 2
     + points (policy_is_lax c) 1 + points (persistent_with_expiration c) 1"

definition specified_tier :: "cookie \<Rightarrow> string" where
  "specified_tier c =
     (if specified_score c \<ge> 6 then ''high''
      else if specified_score c \<ge> 3 then ''medium'' else ''low'')"

section \<open>Deduplication\<close>

text \<open>
  \<open>removeDuplicateCookies\<close>, lines 187 to 195. The key is the template string
  \<open>name|domain|path\<close>; \<open>seen\<close> is the set the filter callback reads and extends
  while it walks the array from left to right.
\<close>

definition cookie_key :: "cookie \<Rightarrow> string" where
  "cookie_key c = name c @ ''|'' @ domain c @ ''|'' @ path c"

fun dedup_filter :: "string set \<Rightarrow> cookie list \<Rightarrow> cookie list" where
  "dedup_filter seen [] = []"
| "dedup_filter seen (c # cs) =
     (let key = cookie_key c
      in if key \<in> seen then dedup_filter seen cs
         else c # dedup_filter (insert key seen) cs)"

definition removeDuplicateCookies :: "cookie list \<Rightarrow> cookie list" where
  "removeDuplicateCookies cookies = dedup_filter {} cookies"

text \<open>The composite key as the specification words it: the triple itself.\<close>

definition cookie_triple :: "cookie \<Rightarrow> string \<times> string \<times> string" where
  "cookie_triple c = (name c, domain c, path c)"

section \<open>Processed cookies and the summary\<close>

text \<open>
  \<open>processCookies\<close>, lines 125 to 155. The fields of the processed record carry the
  prefix \<open>p_\<close>; \<open>size\<close> is \<open>cookie_size\<close>. \<open>Date.prototype.toISOString\<close> belongs
  to the platform and is a parameter.
\<close>

record processed_cookie =
  p_name :: string
  p_value :: string
  p_domain :: string
  p_path :: string
  p_secure :: bool
  p_httpOnly :: bool
  p_sameSite :: string
  p_session :: bool
  p_expirationDate :: "string option"
  p_hostOnly :: bool
  p_storeId :: string
  cookieType :: string
  securityLevel :: string
  cookie_size :: nat

definition processCookie :: "(rat \<Rightarrow> string) \<Rightarrow> cookie \<Rightarrow> processed_cookie" where
  "processCookie toISOString c =
     \<lparr>p_name = name c, p_value = cookie_value c, p_domain = domain c, p_path = path c,
      p_secure = secure c, p_httpOnly = httpOnly c, p_sameSite = sameSite c,
      p_session = session c,
      p_expirationDate =
        (case expirationDate c of
           None \<Rightarrow> None
         | Some x \<Rightarrow> if x \<noteq> 0 then Some (toISOString (x * 1000)) else None),
      p_hostOnly = hostOnly c, p_storeId = storeId c,
      cookieType = categorizeCookie c,
      securityLevel = assessSecurityLevel c,
      cookie_size = length (name c @ cookie_value c)\<rparr>"

definition processCookies :: "(rat \<Rightarrow> string) \<Rightarrow> cookie list \<Rightarrow> processed_cookie list" where
  "processCookies toISOString cookies = map (processCookie toISOString) cookies"

text \<open>
  The numbers of the summary. Sizes are lengths of strings, so the sum and the count are
  natural numbers, which a JavaScript number holds exactly (below \<open>2^53\<close>); their
  quotient is taken as a rational. Division by zero gives \<open>NaN\<close> for \<open>0 / 0\<close> and
  \<open>Infinity\<close> otherwise, \<open>Math.round\<close> is the floor of \<open>x + 1/2\<close> and keeps the
  three non-finite values, and \<open>Math.max\<close> of no arguments is \<open>-Infinity\<close>.
\<close>

datatype jsnumber = NaN | Infinity | NegInfinity | Number rat

definition js_divide :: "nat \<Rightarrow> nat \<Rightarrow> jsnumber" where
  "js_divide a b =
     (if b = 0 then (if a = 0 then NaN else Infinity) else Number (of_nat a / of_nat b))"

fun Math_round :: "jsnumber \<Rightarrow> jsnumber" where
  "Math_round (Number q) = Number (of_int \<lfloor>q + 1 / 2\<rfloor>)"
| "Math_round x = x"

fun Math_max :: "nat list \<Rightarrow> jsnumber" where
  "Math_max [] = NegInfinity"
| "Math_max (x # xs) = Number (of_nat (foldl max x xs))"

text \<open>
  \<open>[...new Set(xs)]\<close>: a \<open>Set\<close> keeps its elements in the order of their first
  insertion. The two histograms are the \<open>reduce\<close> calls with \<open>(acc[k] || 0) + 1\<close>.
\<close>

definition Set_spread :: "'a list \<Rightarrow> 'a list" where
  "Set_spread xs = foldl (\<lambda>s x. if x \<in> set s then s else s @ [x]) [] xs"

definition histogram :: "('a \<Rightarrow> string) \<Rightarrow> 'a list \<Rightarrow> (string \<rightharpoonup> nat)" where
  "histogram f xs =
     foldl (\<lambda>acc x. acc(f x \<mapsto> (case acc (f x) of None \<Rightarrow> 0 | Some n \<Rightarrow> n) + 1)) Map.empty xs"

record summary =
  totalCookies :: nat
  uniqueDomains :: nat
  domains :: "string list"
  cookieTypeDistribution :: "string \<rightharpoonup> nat"
  securityLevelDistribution :: "string \<rightharpoonup> nat"
  largestCookie :: jsnumber
  averageCookieSize :: jsnumber

text \<open>
  \<open>generateSummary\<close>, lines 313 to 334. \<open>Array.prototype.sort\<close> without a comparator
  orders strings by their code units, the order of \<open>string\<close> here; the array it sorts
  has no repeated element, so the sorted array does not depend on the sorting algorithm.
\<close>

definition generateSummary :: "processed_cookie list \<Rightarrow> summary" where
  "generateSummary cookies =
     (let domains = Set_spread (map p_domain cookies);
          cookieTypes = histogram cookieType cookies;
          securityLevels = histogram securityLevel cookies
      in \<lparr>totalCookies = length cookies,
          uniqueDomains = length domains,
          domains = sort domains,
          cookieTypeDistribution = cookieTypes,
          securityLevelDistribution = securityLevels,
          largestCookie = Math_max (map cookie_size cookies),
          averageCookieSize =
            Math_round
              (js_divide (foldl (\<lambda>sum c. sum + cookie_size c) 0 cookies) (length cookies))\<rparr>)"

text \<open>The mean of the size fields, as a rational number.\<close>

definition mean_size :: "processed_cookie list \<Rightarrow> rat" where
  "mean_size cs = of_nat (sum_list (map cookie_size cs)) / of_nat (length cs)"

section \<open>The remote endpoint and the delivery\<close>

text \<open>
  What the outside world answers is data of the model. An error value has the \<open>name\<close>
  and the \<open>message\<close> the source reads. A \<open>fetch\<close> either rejects with an error (an
  \<open>AbortError\<close> when the timer of the request fires first) or resolves with a response,
  of which the source reads \<open>ok\<close>, \<open>status\<close>, \<open>statusText\<close> and the parsed body;
  \<open>response.json()\<close> may itself reject.
\<close>

datatype js_error = JsError (error_name: string) (error_message: string)

record api_result =
  success :: bool
  error :: "string option"

record response =
  ok :: bool
  status :: nat
  statusText :: string
  json :: "js_error + api_result"

datatype fetch_outcome = Rejected js_error | Resolved response

record metadata =
  extractedAt :: string
  userAgent :: string
  meta_totalCookies :: nat
  extractor :: string

record cookie_data =
  cd_metadata :: metadata
  cd_cookies :: "processed_cookie list"
  cd_summary :: summary
  cd_filename :: string

text \<open>
  The effects of a call, in the order in which they happen: the GET of the status path,
  a read of the cookie store (of all cookies, or of one domain), a POST of an envelope,
  and a pause of so many milliseconds.
\<close>

datatype event =
    StatusProbe
  | CookiesGetAll "string option"
  | PostCookies cookie_data
  | Wait nat

text \<open>
  The world of one extraction call: the outcome of the probe, the cookie store, the
  outcome of the POST of each attempt, the host name \<open>new URL(url).hostname\<close> gives (or
  the error it throws), and the readings of the clock, in the order in which the call
  takes them.
\<close>

record world =
  status_probe :: fetch_outcome
  getAll :: "string option \<Rightarrow> js_error + cookie list"
  post :: "nat \<Rightarrow> fetch_outcome"
  url_hostname :: "string \<Rightarrow> js_error + string"
  clock :: "nat \<Rightarrow> string"
  toISOString :: "rat \<Rightarrow> string"

text \<open>A number in a template string, \<open>String.prototype.includes\<close>, and \<open>x || d\<close>.\<close>

definition decimal_digit :: "nat \<Rightarrow> char" where
  "decimal_digit d = ''0123456789'' ! d"

fun number_to_string :: "nat \<Rightarrow> string" where
  "number_to_string n =
     (if n div 10 = 0 then [decimal_digit n]
      else number_to_string (n div 10) @ [decimal_digit (n mod 10)])"

declare number_to_string.simps [simp del]

fun js_includes :: "string \<Rightarrow> string \<Rightarrow> bool" where
  "js_includes [] sub = (sub = [])"
| "js_includes (c # cs) sub = (prefix sub (c # cs) \<or> js_includes cs sub)"

definition or_default :: "string option \<Rightarrow> string \<Rightarrow> string" where
  "or_default v d = (case v of None \<Rightarrow> d | Some s \<Rightarrow> if s = [] then d else s)"

definition maxRetries :: nat where
  "maxRetries = 3"

definition retryDelay :: nat where
  "retryDelay = 1000"

definition not_running_message :: string where
  \<open>not_running_message = ''Server is not running - please start with "npm start"''\<close>

definition timeout_message :: string where
  "timeout_message = ''Server timeout - please check if server is running''"

definition cannot_connect_message :: string where
  \<open>cannot_connect_message = ''Cannot connect to server - please start server with "npm start"''\<close>

text \<open>\<open>checkServerAvailability\<close>, lines 220 to 235: any rejection is caught and is \<open>false\<close>.\<close>

definition checkServerAvailability :: "world \<Rightarrow> event list \<times> bool" where
  "checkServerAvailability w =
     ([StatusProbe], case status_probe w of Rejected e \<Rightarrow> False | Resolved r \<Rightarrow> ok r)"

text \<open>
  \<open>saveCookiesToFile\<close>, lines 240 to 308. \<open>post_attempt\<close> is the body of the \<open>try\<close>
  after the \<open>fetch\<close>: the error it throws, or success. \<open>final_error\<close> is the choice of
  the error of the last attempt, and \<open>save_attempts\<close> is the \<open>for\<close> loop over
  \<open>attempt\<close>.
\<close>

definition post_attempt :: "fetch_outcome \<Rightarrow> js_error + unit" where
  "post_attempt out =
     (case out of
        Rejected e \<Rightarrow> Inl e
      | Resolved r \<Rightarrow>
          if \<not> ok r then
            Inl (JsError ''Error''
                  (''Server responded with '' @ number_to_string (status r) @ '': '' @ statusText r))
          else
            (case json r of
               Inl e \<Rightarrow> Inl e
             | Inr result \<Rightarrow>
                 if \<not> success result then
                   Inl (JsError ''Error''
                         (''Server error: '' @ or_default (error result) ''Unknown error''))
                 else Inr ()))"

definition final_error :: "js_error \<Rightarrow> js_error" where
  "final_error e =
     (if error_name e = ''AbortError'' then JsError ''Error'' timeout_message
      else if js_includes (error_message e) ''Failed to fetch''
              \<or> js_includes (error_message e) ''NetworkError''
      then JsError ''Error'' cannot_connect_message
      else JsError ''Error'' (''Server error: '' @ error_message e))"

function save_attempts ::
  "(nat \<Rightarrow> fetch_outcome) \<Rightarrow> cookie_data \<Rightarrow> nat \<Rightarrow> event list \<times> (js_error + unit)" where
  "save_attempts post_outcome cookieData attempt =
     (if attempt \<le> maxRetries then
        (case post_attempt (post_outcome attempt) of
           Inr u \<Rightarrow> ([PostCookies cookieData], Inr ())
         | Inl e \<Rightarrow>
             if attempt = maxRetries then ([PostCookies cookieData], Inl (final_error e))
             else
               (let pause = (if attempt < maxRetries then [Wait retryDelay] else []);
                    (tr, r) = save_attempts post_outcome cookieData (attempt + 1)
                in (PostCookies cookieData # pause @ tr, r)))
      else ([], Inr ()))"
  by pat_completeness auto
termination
  by (relation "measure (\<lambda>(p, d, attempt). Suc maxRetries - attempt)") auto

declare save_attempts.simps [simp del]

definition iso_for_filename :: "string \<Rightarrow> string" where
  "iso_for_filename s = map (\<lambda>c. if c = CHR '':'' \<or> c = CHR ''.'' then CHR ''-'' else c) s"

definition saveCookiesToFile ::
  "world \<Rightarrow> processed_cookie list \<Rightarrow> string \<Rightarrow> event list \<times> (js_error + unit)" where
  "saveCookiesToFile w cookies filename =
     (let cookieData =
            \<lparr>cd_metadata =
               \<lparr>extractedAt = clock w 0, userAgent = ''Chrome Extension'',
                meta_totalCookies = length cookies,
                extractor = ''Advanced Cookie Extractor v1.0''\<rparr>,
             cd_cookies = cookies,
             cd_summary = generateSummary cookies,
             cd_filename = filename @ ''_'' @ iso_for_filename (clock w 1) @ ''.json''\<rparr>
      in save_attempts (post w) cookieData 1)"

section \<open>Extraction\<close>

text \<open>
  \<open>String.prototype.split\<close> with a one-character separator and
  \<open>Array.prototype.join\<close>; \<open>slice(1)\<close> is \<open>drop 1\<close>. The last case of \<open>js_split\<close>
  is never reached: a split has at least one part.
\<close>

fun js_split :: "char \<Rightarrow> string \<Rightarrow> string list" where
  "js_split sep [] = [[]]"
| "js_split sep (c # cs) =
     (if c = sep then [] # js_split sep cs
      else (case js_split sep cs of w # ws \<Rightarrow> (c # w) # ws | [] \<Rightarrow> [[c]]))"

fun js_join :: "char \<Rightarrow> string list \<Rightarrow> string" where
  "js_join sep [] = []"
| "js_join sep [p] = p"
| "js_join sep (p # ps) = p @ sep # js_join sep ps"

text \<open>
  Lines 89 to 102 of \<open>extractCurrentDomainCookies\<close>: the read for the host name, the
  read for the parent domain behind the test on \<open>domainParts.length\<close>, and the
  \<open>push\<close> of the second result onto the first. The result is the merged array, before
  any deduplication.
\<close>

definition domainCookies :: "world \<Rightarrow> string \<Rightarrow> event list \<times> (js_error + cookie list)" where
  "domainCookies w domain' =
     (case getAll w (Some domain') of
        Inl e \<Rightarrow> ([CookiesGetAll (Some domain')], Inl e)
      | Inr cookies \<Rightarrow>
          (let domainParts = js_split (CHR ''.'') domain'
           in if length domainParts > 2 then
                (let parentDomain = js_join (CHR ''.'') (drop 1 domainParts)
                 in case getAll w (Some parentDomain) of
                      Inl e \<Rightarrow>
                        ([CookiesGetAll (Some domain'), CookiesGetAll (Some parentDomain)], Inl e)
                    | Inr parentCookies \<Rightarrow>
                        ([CookiesGetAll (Some domain'), CookiesGetAll (Some parentDomain)],
                         Inr (cookies @ parentCookies)))
              else ([CookiesGetAll (Some domain')], Inr cookies)))"

record all_result =
  all_total :: nat
  all_cookies :: "processed_cookie list"
  all_timestamp :: string

record domain_result =
  dom_domain :: string
  dom_total :: nat
  dom_cookies :: "processed_cookie list"
  dom_timestamp :: string

text \<open>The \<open>catch\<close> of both entry points: the error is thrown again under a longer message.\<close>

definition rethrow :: "string \<Rightarrow> event list \<times> (js_error + 'a) \<Rightarrow> event list \<times> (js_error + 'a)" where
  "rethrow label m =
     (case m of
        (tr, Inl e) \<Rightarrow> (tr, Inl (JsError ''Error'' (label @ error_message e)))
      | (tr, Inr x) \<Rightarrow> (tr, Inr x))"

text \<open>\<open>extractAllCookies\<close>, lines 48 to 73.\<close>

definition extractAllCookies :: "world \<Rightarrow> event list \<times> (js_error + all_result)" where
  "extractAllCookies w =
     rethrow ''Failed to extract all cookies: ''
       (let (tr0, serverAvailable) = checkServerAvailability w
        in if \<not> serverAvailable then (tr0, Inl (JsError ''Error'' not_running_message))
           else
             (case getAll w None of
                Inl e \<Rightarrow> (tr0 @ [CookiesGetAll None], Inl e)
              | Inr cookies \<Rightarrow>
                  (let processedCookies = processCookies (toISOString w) cookies;
                       (tr1, saved) = saveCookiesToFile w processedCookies ''all_cookies''
                   in (tr0 @ [CookiesGetAll None] @ tr1,
                       case saved of
                         Inl e \<Rightarrow> Inl e
                       | Inr u \<Rightarrow>
                           Inr \<lparr>all_total = length cookies, all_cookies = processedCookies,
                                all_timestamp = clock w 2\<rparr>))))"

text \<open>\<open>extractCurrentDomainCookies\<close>, lines 78 to 120.\<close>

definition extractCurrentDomainCookies ::
  "world \<Rightarrow> string \<Rightarrow> event list \<times> (js_error + domain_result)" where
  "extractCurrentDomainCookies w url =
     rethrow ''Failed to extract domain cookies: ''
       (let (tr0, serverAvailable) = checkServerAvailability w
        in if \<not> serverAvailable then (tr0, Inl (JsError ''Error'' not_running_message))
           else
             (case url_hostname w url of
                Inl e \<Rightarrow> (tr0, Inl e)
              | Inr domain' \<Rightarrow>
                  (case domainCookies w domain' of
                     (tr1, Inl e) \<Rightarrow> (tr0 @ tr1, Inl e)
                   | (tr1, Inr cookies) \<Rightarrow>
                       (let uniqueCookies = removeDuplicateCookies cookies;
                            processedCookies = processCookies (toISOString w) uniqueCookies;
                            (tr2, saved) =
                              saveCookiesToFile w processedCookies (''cookies_'' @ domain')
                        in (tr0 @ tr1 @ tr2,
                            case saved of
                              Inl e \<Rightarrow> Inl e
                            | Inr u \<Rightarrow>
                                Inr \<lparr>dom_domain = domain', dom_total = length uniqueCookies,
                                     dom_cookies = processedCookies,
                                     dom_timestamp = clock w 2\<rparr>)))))"

text \<open>Two kinds of events that the properties below count.\<close>

fun is_post :: "event \<Rightarrow> bool" where
  "is_post (PostCookies d) = True"
| "is_post e = False"

fun is_read :: "event \<Rightarrow> bool" where
  "is_read (CookiesGetAll q) = True"
| "is_read e = False"

text \<open>
  The parent domain as the specification words it: the number of labels that the dots
  of a host name separate, and the host name without its leftmost label.
\<close>

definition label_count :: "string \<Rightarrow> nat" where
  "label_count h = Suc (count_list h (CHR ''.''))"

definition drop_leftmost_label :: "string \<Rightarrow> string" where
  "drop_leftmost_label h = drop 1 (dropWhile (\<lambda>c. c \<noteq> CHR ''.'') h)"

section \<open>Sample cookies\<close>

definition sample_cookie :: cookie where
  "sample_cookie =
     \<lparr>name = ''sid'', cookie_value = ''abc123'', domain = ''x.com'', path = ''/'',
      secure = True, httpOnly = True, sameSite = ''Strict'', session = False,
      expirationDate = Some 1900000000, hostOnly = True, storeId = ''0''\<rparr>"

definition plain_cookie :: cookie where
  "plain_cookie =
     \<lparr>name = ''b'', cookie_value = ''1'', domain = ''x.com'', path = ''/'',
      secure = False, httpOnly = False, sameSite = ''unspecified'', session = True,
      expirationDate = None, hostOnly = True, storeId = ''0''\<rparr>"

text \<open>A secure, httpOnly session cookie of policy Strict, as the store reports it.\<close>

definition store_strict_cookie :: cookie where
  "store_strict_cookie =
     \<lparr>name = ''auth'', cookie_value = ''k9'', domain = ''x.com'', path = ''/'',
      secure = True, httpOnly = True, sameSite = ''strict'', session = True,
      expirationDate = None, hostOnly = True, storeId = ''0''\<rparr>"

definition other_cookie :: cookie where
  "other_cookie =
     \<lparr>name = ''theme'', cookie_value = ''dark'', domain = ''a.example.org'', path = ''/'',
      secure = True, httpOnly = False, sameSite = ''Lax'', session = False,
      expirationDate = Some 1900000000, hostOnly = False, storeId = ''0''\<rparr>"

text \<open>
  Two cookies of one site whose names and paths contain the character \<open>|\<close>, which both
  a cookie name and a cookie path may contain.
\<close>

definition piped_path_cookie :: cookie where
  "piped_path_cookie =
     \<lparr>name = ''s'', cookie_value = ''2'', domain = ''x.com'', path = ''/|x.com|/'',
      secure = False, httpOnly = False, sameSite = ''unspecified'', session = True,
      expirationDate = None, hostOnly = True, storeId = ''0''\<rparr>"

definition piped_name_cookie :: cookie where
  "piped_name_cookie =
     \<lparr>name = ''s|x.com|/'', cookie_value = ''1'', domain = ''x.com'', path = ''/'',
      secure = False, httpOnly = False, sameSite = ''unspecified'', session = True,
      expirationDate = None, hostOnly = True, storeId = ''0''\<rparr>"

definition sample_iso :: "rat \<Rightarrow> string" where
  "sample_iso t = ''2030-03-17T17:46:40.000Z''"

section \<open>Sample worlds\<close>

definition deep_cookie :: cookie where
  "deep_cookie =
     \<lparr>name = ''token'', cookie_value = ''t1'', domain = ''a.b.example.com'', path = ''/'',
      secure = True, httpOnly = True, sameSite = ''Lax'', session = True,
      expirationDate = None, hostOnly = True, storeId = ''0''\<rparr>"

definition mid_cookie :: cookie where
  "mid_cookie =
     \<lparr>name = ''lang'', cookie_value = ''en'', domain = ''.b.example.com'', path = ''/'',
      secure = False, httpOnly = False, sameSite = ''unspecified'', session = False,
      expirationDate = Some 1900000000, hostOnly = False, storeId = ''0''\<rparr>"

text \<open>
  A store in which the query for a domain also returns the cookies of its subdomains, a
  server that accepts every POST, and the host names of two addresses.
\<close>

definition sample_store :: "string option \<Rightarrow> js_error + cookie list" where
  "sample_store q =
     (case q of
        None \<Rightarrow> Inr [sample_cookie, plain_cookie, deep_cookie, mid_cookie]
      | Some d \<Rightarrow>
          if d = ''a.b.example.com'' then Inr [deep_cookie]
          else if d = ''b.example.com'' then Inr [deep_cookie, mid_cookie]
          else if d = ''x.com'' then Inr [sample_cookie, plain_cookie]
          else Inr [])"

definition sample_hostname :: "string \<Rightarrow> js_error + string" where
  "sample_hostname url =
     (if url = ''https://a.b.example.com/inbox'' then Inr ''a.b.example.com''
      else if url = ''https://x.com/home'' then Inr ''x.com''
      else Inl (JsError ''TypeError'' ''Invalid URL''))"

definition accepted :: response where
  "accepted = \<lparr>ok = True, status = 200, statusText = ''OK'',
                json = Inr \<lparr>success = True, error = None\<rparr>\<rparr>"

definition sample_world :: world where
  "sample_world =
     \<lparr>status_probe = Resolved accepted, getAll = sample_store,
      post = (\<lambda>n. Resolved accepted), url_hostname = sample_hostname,
      clock = (\<lambda>k. ''2026-11-03T10:00:00.000Z''), toISOString = sample_iso\<rparr>"

text \<open>The same world with a status path that answers 503.\<close>

definition unavailable :: response where
  "unavailable = \<lparr>ok = False, status = 503, statusText = ''Service Unavailable'',
                   json = Inl (JsError ''SyntaxError'' ''Unexpected end of JSON input'')\<rparr>"

definition down_world :: world where
  "down_world = sample_world\<lparr>status_probe := Resolved unavailable\<rparr>"

text \<open>
  The same world with a server that answers every POST with status 200 and the body
  \<open>{success: false, error: "NetworkError: storage backend unreachable"}\<close>.
\<close>

definition rejection :: response where
  "rejection = \<lparr>ok = True, status = 200, statusText = ''OK'',
                 json = Inr \<lparr>success = False,
                             error = Some ''NetworkError: storage backend unreachable''\<rparr>\<rparr>"

definition rejecting_world :: world where
  "rejecting_world = sample_world\<lparr>post := (\<lambda>n. Resolved rejection)\<rparr>"

section \<open>Properties of the classification\<close>

lemma securityScore_sum:
  "securityScore c =
     points (secure c) 2 + points (httpOnly c) 2 + points (sameSite c = ''Strict'') 2
     + points (sameSite c = ''Lax'') 1 + points (persistent_with_expiration c) 1"
  by (simp add: securityScore_def points_def persistent_with_expiration_def)

lemma persistent_with_expiration_present:
  "expirationDate c \<noteq> Some 0 \<Longrightarrow>
     persistent_with_expiration c \<longleftrightarrow> \<not> session c \<and> expirationDate c \<noteq> None"
  by (auto simp add: persistent_with_expiration_def truthy_number_def split: option.splits)

lemma securityScore_le_7: "securityScore c \<le> 7"
  by (simp add: securityScore_def)

text \<open>
  C3. \<open>categorizeCookie\<close> returns the category of the first rule that matches, in the
  order secure-httponly, httponly, secure, session, regular; a cookie with both
  \<open>httpOnly\<close> and \<open>secure\<close> is categorized secure-httponly, never secure or httponly.
\<close>

theorem categorizeCookie_priority:
  "first_matching_rule category_rules c = Some (categorizeCookie c)
   \<and> (httpOnly c \<and> secure c \<longrightarrow>
        categorizeCookie c = ''secure-httponly''
        \<and> categorizeCookie c \<noteq> ''secure'' \<and> categorizeCookie c \<noteq> ''httponly'')"
  by (simp add: category_rules_def categorizeCookie_def)

theorem categorizeCookie_priority_witness:
  "httpOnly sample_cookie \<and> secure sample_cookie
   \<and> first_matching_rule category_rules sample_cookie = Some ''secure-httponly''
   \<and> categorizeCookie sample_cookie = ''secure-httponly''"
  using categorizeCookie_priority [of sample_cookie]
  by (simp add: sample_cookie_def)

text \<open>
  What \<open>assessSecurityLevel\<close> computes: the sum of the five signals, with the
  same-site policy read by the two literals \<open>Strict\<close> and \<open>Lax\<close> of the source, a
  score of at most 8, and the tiers by the thresholds 6 and 3. The source tests the
  expiration for truthiness, which for every expiration other than the number 0 is the
  test for its presence.
\<close>

lemma securityScore_by_literals:
  "securityScore c =
     points (secure c) 2 + points (httpOnly c) 2 + points (sameSite c = ''Strict'') 2
     + points (sameSite c = ''Lax'') 1 + points (persistent_with_expiration c) 1
   \<and> (expirationDate c \<noteq> Some 0 \<longrightarrow>
        (persistent_with_expiration c \<longleftrightarrow> \<not> session c \<and> expirationDate c \<noteq> None))
   \<and> 0 \<le> securityScore c \<and> securityScore c \<le> 8
   \<and> (assessSecurityLevel c = ''high'' \<longleftrightarrow> securityScore c \<ge> 6)
   \<and> (assessSecurityLevel c = ''medium'' \<longleftrightarrow> 3 \<le> securityScore c \<and> securityScore c < 6)
   \<and> (assessSecurityLevel c = ''low'' \<longleftrightarrow> securityScore c < 3)"
proof -
  have "securityScore c \<le> 8"
    using securityScore_le_7 [of c] by simp
  moreover have "expirationDate c \<noteq> Some 0 \<longrightarrow>
      (persistent_with_expiration c \<longleftrightarrow> \<not> session c \<and> expirationDate c \<noteq> None)"
    by (simp add: persistent_with_expiration_present)
  moreover have "assessSecurityLevel c = ''high'' \<longleftrightarrow> securityScore c \<ge> 6"
    by (simp add: assessSecurityLevel_def Let_def)
  moreover have "assessSecurityLevel c = ''medium'' \<longleftrightarrow> 3 \<le> securityScore c \<and> securityScore c < 6"
    by (auto simp add: assessSecurityLevel_def Let_def)
  moreover have "assessSecurityLevel c = ''low'' \<longleftrightarrow> securityScore c < 3"
    by (auto simp add: assessSecurityLevel_def Let_def)
  ultimately show ?thesis
    using securityScore_sum [of c] by simp
qed

text \<open>
  On the four values of \<open>sameSite\<close> that the store reports, neither literal matches:
  the same-site policy adds nothing, the score is at most 5 and the tier is never high.
\<close>

lemma store_policy_adds_nothing:
  assumes "sameSite c \<in> {''strict'', ''lax'', ''no_restriction'', ''unspecified''}"
  shows "securityScore c =
      points (secure c) 2 + points (httpOnly c) 2 + points (persistent_with_expiration c) 1"
    and "securityScore c \<le> 5"
    and "assessSecurityLevel c \<noteq> ''high''"
proof -
  have "sameSite c \<noteq> ''Strict''" and "sameSite c \<noteq> ''Lax''"
    using assms by auto
  then show score: "securityScore c =
      points (secure c) 2 + points (httpOnly c) 2 + points (persistent_with_expiration c) 1"
    by (simp add: securityScore_def points_def persistent_with_expiration_def)
  then show le: "securityScore c \<le> 5"
    by (simp add: points_def)
  then show "assessSecurityLevel c \<noteq> ''high''"
    by (simp add: assessSecurityLevel_def Let_def)
qed

text \<open>
  C2. The score is to be the sum of 2 points for secure, 2 for httpOnly, 2 for the
  same-site policy Strict, 1 for Lax and 1 for a persistent cookie with an expiration,
  within 0 and 8, with the tier high from 6 on, medium from 3 to 5 and low below 3. The
  code compares \<open>sameSite\<close> with the literals \<open>Strict\<close> and \<open>Lax\<close>, which the
  store never reports. For the secure, httpOnly session cookie of policy Strict below,
  the specified score is 6 and the specified tier high; the code gives it the score 4
  and the tier medium.
\<close>

theorem assessSecurityLevel_misses_store_policy:
  "secure store_strict_cookie \<and> httpOnly store_strict_cookie
   \<and> policy_is_strict store_strict_cookie
   \<and> specified_score store_strict_cookie = 6
   \<and> specified_tier store_strict_cookie = ''high''
   \<and> securityScore store_strict_cookie = 4
   \<and> assessSecurityLevel store_strict_cookie = ''medium''"
proof -
  have spec: "specified_score store_strict_cookie = 6"
    by (simp add: specified_score_def policy_is_strict_def policy_is_lax_def points_def
        persistent_with_expiration_def store_strict_cookie_def)
  have code: "securityScore store_strict_cookie = 4"
    by (simp add: securityScore_def store_strict_cookie_def)
  have "specified_tier store_strict_cookie = ''high''"
    by (simp add: specified_tier_def spec)
  moreover have "assessSecurityLevel store_strict_cookie = ''medium''"
    by (simp add: assessSecurityLevel_def code)
  moreover have "secure store_strict_cookie \<and> httpOnly store_strict_cookie
      \<and> policy_is_strict store_strict_cookie"
    by (simp add: policy_is_strict_def store_strict_cookie_def)
  ultimately show ?thesis
    using spec code by simp
qed

text \<open>
  C10. A cookie of tier high has both the secure and the httpOnly flag and is therefore
  of category secure-httponly: without both contributions of 2 the score stays below 6.
\<close>

theorem high_tier_is_secure_httponly:
  "(assessSecurityLevel c = ''high'' \<longrightarrow>
      secure c \<and> httpOnly c \<and> categorizeCookie c = ''secure-httponly'')
   \<and> (6 \<le> securityScore c \<longrightarrow> secure c \<and> httpOnly c)"
  by (auto simp add: assessSecurityLevel_def securityScore_def categorizeCookie_def Let_def
      split: if_splits)

theorem high_tier_is_secure_httponly_witness:
  "assessSecurityLevel sample_cookie = ''high'' \<and> 6 \<le> securityScore sample_cookie
   \<and> secure sample_cookie \<and> httpOnly sample_cookie
   \<and> categorizeCookie sample_cookie = ''secure-httponly''"
proof -
  have score: "securityScore sample_cookie = 7"
    by (simp add: securityScore_def sample_cookie_def truthy_number_def)
  then have tier: "assessSecurityLevel sample_cookie = ''high''"
    by (simp add: assessSecurityLevel_def)
  from high_tier_is_secure_httponly [of sample_cookie] tier
  have "secure sample_cookie \<and> httpOnly sample_cookie
      \<and> categorizeCookie sample_cookie = ''secure-httponly''"
    by blast
  with score tier show ?thesis
    by simp
qed

section \<open>Properties of the deduplication\<close>

text \<open>
  What \<open>removeDuplicateCookies\<close> computes: the keys of its result are those of the
  input, none twice, and the result keeps exactly the records whose key has not occurred
  at an earlier index.
\<close>

lemma dedup_filter_keys:
  "set (map cookie_key (dedup_filter seen cs)) = set (map cookie_key cs) - seen"
  by (induction cs arbitrary: seen) (auto simp add: Let_def)

lemma dedup_filter_not_seen:
  "x \<in> set (dedup_filter seen cs) \<Longrightarrow> cookie_key x \<notin> seen"
  using dedup_filter_keys [of seen cs] by auto

lemma dedup_filter_distinct: "distinct (map cookie_key (dedup_filter seen cs))"
proof (induction cs arbitrary: seen)
  case Nil
  then show ?case by simp
next
  case (Cons c cs)
  have "cookie_key c \<notin> cookie_key ` set (dedup_filter (insert (cookie_key c) seen) cs)"
  proof
    assume "cookie_key c \<in> cookie_key ` set (dedup_filter (insert (cookie_key c) seen) cs)"
    then obtain x where x: "x \<in> set (dedup_filter (insert (cookie_key c) seen) cs)"
      and k: "cookie_key x = cookie_key c"
      by auto
    from dedup_filter_not_seen [OF x] k show False
      by simp
  qed
  with Cons.IH show ?case
    by (simp add: Let_def)
qed

lemma dedup_filter_fixed:
  "distinct (map cookie_key cs) \<Longrightarrow> set (map cookie_key cs) \<inter> seen = {} \<Longrightarrow>
     dedup_filter seen cs = cs"
  by (induction cs arbitrary: seen) (auto simp add: Let_def)

lemma dedup_filter_first_occurrences:
  "dedup_filter seen cs =
     map (\<lambda>i. cs ! i)
       (filter (\<lambda>i. cookie_key (cs ! i) \<notin> seen \<union> cookie_key ` set (take i cs)) [0..<length cs])"
proof (induction cs arbitrary: seen)
  case Nil
  then show ?case by simp
next
  case (Cons c cs)
  have shift: "[0..<length (c # cs)] = 0 # map Suc [0..<length cs]"
    by (simp add: upt_conv_Cons map_Suc_upt del: upt_Suc)
  show ?case
    unfolding shift
    by (auto simp add: Cons.IH Let_def filter_map comp_def simp del: upt_Suc
        intro!: arg_cong [where f = "map ((!) cs)"] filter_cong)
qed

text \<open>
  C1. \<open>removeDuplicateCookies\<close> is to keep the first record of each (name, domain, path)
  triple and never to merge two records of distinct triples, whatever the names, domains
  and paths. The code compares the joined string \<open>name|domain|path\<close> instead, and two
  distinct triples can give one string: the two cookies below, both of domain \<open>x.com\<close>,
  have distinct triples and the same key, and the second one is dropped as a duplicate
  of the first.
\<close>

theorem removeDuplicateCookies_merges_distinct_triples:
  "cookie_triple piped_path_cookie \<noteq> cookie_triple piped_name_cookie
   \<and> cookie_key piped_path_cookie = cookie_key piped_name_cookie
   \<and> removeDuplicateCookies [piped_path_cookie, piped_name_cookie] = [piped_path_cookie]"
  by (simp add: removeDuplicateCookies_def cookie_key_def cookie_triple_def
      piped_name_cookie_def piped_path_cookie_def)

text \<open>
  C9. \<open>removeDuplicateCookies\<close> is idempotent: applied to its own output it returns
  that output.
\<close>

theorem removeDuplicateCookies_idempotent:
  "removeDuplicateCookies (removeDuplicateCookies cs) = removeDuplicateCookies cs"
  unfolding removeDuplicateCookies_def
  by (rule dedup_filter_fixed) (simp_all add: dedup_filter_distinct)

section \<open>Properties of the summary\<close>

lemma foldl_spread:
  "distinct s \<Longrightarrow>
     set (foldl (\<lambda>s x. if x \<in> set s then s else s @ [x]) s xs) = set s \<union> set xs
     \<and> distinct (foldl (\<lambda>s x. if x \<in> set s then s else s @ [x]) s xs)"
  by (induction xs arbitrary: s) auto

lemma set_Set_spread: "set (Set_spread xs) = set xs"
  using foldl_spread [of "[]" xs] by (simp add: Set_spread_def)

lemma distinct_Set_spread: "distinct (Set_spread xs)"
  using foldl_spread [of "[]" xs] by (simp add: Set_spread_def)

lemma domains_generateSummary:
  "domains (generateSummary cs) = sorted_list_of_set (p_domain ` set cs)"
proof -
  have "sort (Set_spread (map p_domain cs)) = sorted_list_of_set (set (Set_spread (map p_domain cs)))"
    by (simp add: sorted_list_of_set_sort_remdups distinct_remdups_id distinct_Set_spread)
  then show ?thesis
    by (simp add: generateSummary_def Let_def set_Set_spread)
qed

lemma uniqueDomains_generateSummary:
  "uniqueDomains (generateSummary cs) = length (domains (generateSummary cs))"
  by (simp add: generateSummary_def Let_def)

lemma foldl_sizes: "foldl (\<lambda>sum c. sum + cookie_size c) a cs = a + sum_list (map cookie_size cs)"
  by (induction cs arbitrary: a) auto

lemma averageCookieSize_nonempty:
  "cs \<noteq> [] \<Longrightarrow> averageCookieSize (generateSummary cs) = Number (of_int (round (mean_size cs)))"
  by (simp add: generateSummary_def Let_def js_divide_def foldl_sizes mean_size_def round_def)

text \<open>
  C8. The \<open>domains\<close> field of the summary is the sorted list of the distinct domains of
  the input, in the lexicographic order of strings and without duplicates,
  \<open>uniqueDomains\<close> is its length, and two inputs with the same set of domains, in
  whatever order, give the same field.
\<close>

theorem summary_domains_sorted_distinct:
  "domains (generateSummary cs) = sorted_list_of_set (p_domain ` set cs)
   \<and> sorted (domains (generateSummary cs))
   \<and> distinct (domains (generateSummary cs))
   \<and> set (domains (generateSummary cs)) = p_domain ` set cs
   \<and> uniqueDomains (generateSummary cs) = length (domains (generateSummary cs))
   \<and> (\<forall>cs'. p_domain ` set cs' = p_domain ` set cs \<longrightarrow>
         domains (generateSummary cs') = domains (generateSummary cs))"
  by (simp add: domains_generateSummary uniqueDomains_generateSummary)

theorem summary_domains_sorted_distinct_witness:
  "p_domain ` set (processCookies sample_iso [other_cookie, sample_cookie])
     = p_domain ` set (processCookies sample_iso [sample_cookie, other_cookie, plain_cookie])
   \<and> domains (generateSummary (processCookies sample_iso [sample_cookie, other_cookie, plain_cookie]))
     = [''a.example.org'', ''x.com'']
   \<and> domains (generateSummary (processCookies sample_iso [other_cookie, sample_cookie]))
     = [''a.example.org'', ''x.com'']
   \<and> uniqueDomains (generateSummary (processCookies sample_iso [sample_cookie, other_cookie, plain_cookie])) = 2"
proof -
  let ?cs = "processCookies sample_iso [sample_cookie, other_cookie, plain_cookie]"
  let ?cs' = "processCookies sample_iso [other_cookie, sample_cookie]"
  have same: "p_domain ` set ?cs' = p_domain ` set ?cs"
    by (auto simp add: processCookies_def processCookie_def sample_cookie_def other_cookie_def
        plain_cookie_def)
  have doms: "domains (generateSummary ?cs) = [''a.example.org'', ''x.com'']"
    by (simp add: generateSummary_def Set_spread_def processCookies_def processCookie_def
        sample_cookie_def other_cookie_def plain_cookie_def)
  from summary_domains_sorted_distinct [of ?cs] same
  have "domains (generateSummary ?cs') = domains (generateSummary ?cs)"
    and "uniqueDomains (generateSummary ?cs) = length (domains (generateSummary ?cs))"
    by blast+
  with same doms show ?thesis
    by simp
qed

text \<open>
  C7. For a non-empty list, \<open>averageCookieSize\<close> is the mean of the size fields rounded
  to the nearest integer: no integer is nearer to the mean. For the empty list the code
  divides zero by zero and the field is no number at all (\<open>NaN\<close>).
\<close>

theorem averageCookieSize_rounded_mean:
  "(cs \<noteq> [] \<longrightarrow>
      averageCookieSize (generateSummary cs) = Number (of_int (round (mean_size cs)))
      \<and> (\<forall>m::int. \<bar>mean_size cs - of_int (round (mean_size cs))\<bar> \<le> \<bar>mean_size cs - of_int m\<bar>))
   \<and> averageCookieSize (generateSummary []) = Math_round (js_divide 0 0)
   \<and> Math_round (js_divide 0 0) = NaN"
proof -
  have "averageCookieSize (generateSummary []) = Math_round (js_divide 0 0)"
    by (simp add: generateSummary_def Let_def)
  moreover have "Math_round (js_divide 0 0) = NaN"
    by (simp add: js_divide_def)
  ultimately show ?thesis
    by (simp add: averageCookieSize_nonempty round_diff_minimal)
qed

theorem averageCookieSize_rounded_mean_witness:
  "processCookies sample_iso [sample_cookie, plain_cookie] \<noteq> []
   \<and> mean_size (processCookies sample_iso [sample_cookie, plain_cookie]) = 11 / 2
   \<and> averageCookieSize (generateSummary (processCookies sample_iso [sample_cookie, plain_cookie]))
       = Number 6"
proof -
  let ?cs = "processCookies sample_iso [sample_cookie, plain_cookie]"
  have ne: "?cs \<noteq> []"
    by (simp add: processCookies_def)
  have mean: "mean_size ?cs = 11 / 2"
    by (simp add: mean_size_def processCookies_def processCookie_def sample_cookie_def
        plain_cookie_def)
  have rounded: "round (mean_size ?cs) = 6"
    unfolding mean by (simp add: round_def)
  from averageCookieSize_rounded_mean [of ?cs] ne
  have "averageCookieSize (generateSummary ?cs) = Number (of_int (round (mean_size ?cs)))"
    by blast
  then have "averageCookieSize (generateSummary ?cs) = Number 6"
    unfolding rounded by simp
  with ne mean show ?thesis
    by blast
qed

section \<open>Properties of the delivery\<close>

text \<open>
  The loop of \<open>saveCookiesToFile\<close> written out: one POST per attempt, a pause of 1000
  milliseconds after each failed attempt but the third, no attempt after a success, and
  after a third failure the error that \<open>final_error\<close> chooses.
\<close>

lemma save_attempts_unrolled:
  "save_attempts p d 1 =
     (case post_attempt (p 1) of
        Inr u \<Rightarrow> ([PostCookies d], Inr ())
      | Inl e1 \<Rightarrow>
          (case post_attempt (p 2) of
             Inr u \<Rightarrow> ([PostCookies d, Wait 1000, PostCookies d], Inr ())
           | Inl e2 \<Rightarrow>
               (case post_attempt (p 3) of
                  Inr u \<Rightarrow>
                    ([PostCookies d, Wait 1000, PostCookies d, Wait 1000, PostCookies d], Inr ())
                | Inl e3 \<Rightarrow>
                    ([PostCookies d, Wait 1000, PostCookies d, Wait 1000, PostCookies d],
                     Inl (final_error e3)))))"
proof -
  have three: "save_attempts p d (Suc (Suc (Suc 0))) =
      (case post_attempt (p 3) of
         Inr u \<Rightarrow> ([PostCookies d], Inr ())
       | Inl e \<Rightarrow> ([PostCookies d], Inl (final_error e)))"
    by (subst save_attempts.simps) (simp add: maxRetries_def numeral_3_eq_3 split: sum.splits)
  have two: "save_attempts p d (Suc (Suc 0)) =
      (case post_attempt (p 2) of
         Inr u \<Rightarrow> ([PostCookies d], Inr ())
       | Inl e \<Rightarrow>
           (case save_attempts p d (Suc (Suc (Suc 0))) of
              (tr, r) \<Rightarrow> (PostCookies d # Wait 1000 # tr, r)))"
    by (subst save_attempts.simps)
      (simp add: maxRetries_def retryDelay_def numeral_2_eq_2 split: sum.splits)
  have one: "save_attempts p d (Suc 0) =
      (case post_attempt (p 1) of
         Inr u \<Rightarrow> ([PostCookies d], Inr ())
       | Inl e \<Rightarrow>
           (case save_attempts p d (Suc (Suc 0)) of
              (tr, r) \<Rightarrow> (PostCookies d # Wait 1000 # tr, r)))"
    by (subst save_attempts.simps)
      (simp add: maxRetries_def retryDelay_def split: sum.splits)
  have "save_attempts p d 1 = save_attempts p d (Suc 0)"
    by simp
  then show ?thesis
    unfolding one two three by (simp split: sum.splits)
qed

lemma save_attempts_no_read: "filter is_read (fst (save_attempts p d 1)) = []"
  by (simp add: save_attempts_unrolled split: sum.splits del: One_nat_def)

lemma saveCookiesToFile_no_read: "filter is_read (fst (saveCookiesToFile w cs f)) = []"
  by (simp add: saveCookiesToFile_def Let_def save_attempts_no_read del: One_nat_def)

lemma save_attempts_at_most_3:
  "length (filter is_post (fst (save_attempts p d 1))) \<le> 3"
  by (simp add: save_attempts_unrolled split: sum.splits del: One_nat_def)

lemma saveCookiesToFile_at_most_3:
  "length (filter is_post (fst (saveCookiesToFile w cs f))) \<le> 3"
  by (simp add: saveCookiesToFile_def Let_def save_attempts_at_most_3 del: One_nat_def)

lemma save_attempts_first_success:
  "post_attempt (p 1) = Inr () \<Longrightarrow> save_attempts p d 1 = ([PostCookies d], Inr ())"
  "post_attempt (p 1) = Inl e1 \<Longrightarrow> post_attempt (p 2) = Inr () \<Longrightarrow>
     save_attempts p d 1 = ([PostCookies d, Wait 1000, PostCookies d], Inr ())"
  "post_attempt (p 1) = Inl e1 \<Longrightarrow> post_attempt (p 2) = Inl e2 \<Longrightarrow> post_attempt (p 3) = Inr () \<Longrightarrow>
     save_attempts p d 1 =
       ([PostCookies d, Wait 1000, PostCookies d, Wait 1000, PostCookies d], Inr ())"
  by (simp_all add: save_attempts_unrolled del: One_nat_def)

lemma save_attempts_three_failures:
  "post_attempt (p 1) = Inl e1 \<Longrightarrow> post_attempt (p 2) = Inl e2 \<Longrightarrow> post_attempt (p 3) = Inl e3 \<Longrightarrow>
     save_attempts p d 1 =
       ([PostCookies d, Wait 1000, PostCookies d, Wait 1000, PostCookies d],
        Inl (final_error e3))"
  by (simp add: save_attempts_unrolled del: One_nat_def)

lemma js_includes_sublist: "js_includes s sub = sublist sub s"
  by (induction s) (auto simp add: sublist_Cons_right)

lemma number_to_string_503: "number_to_string 503 = ''503''"
  by (simp add: number_to_string.simps [of 503] number_to_string.simps [of 50]
      number_to_string.simps [of 5] decimal_digit_def)

lemma final_error_cases:
  "final_error e = JsError ''Error'' timeout_message
   \<or> final_error e = JsError ''Error'' cannot_connect_message
   \<or> final_error e = JsError ''Error'' (''Server error: '' @ error_message e)"
  by (simp add: final_error_def)

lemma final_error_abort: "final_error (JsError ''AbortError'' m) = JsError ''Error'' timeout_message"
  by (simp add: final_error_def)

lemma final_error_failed_to_fetch:
  "final_error (JsError ''TypeError'' ''Failed to fetch'') = JsError ''Error'' cannot_connect_message"
  by (simp add: final_error_def)

text \<open>
  C5. A delivery makes at most 3 POST attempts, 1 second apart, stops at the first
  success, and after the third failure is to raise the timeout message for an aborted
  attempt, the connection-failure message for a fetch that failed to connect, and the
  generic server-error message otherwise. The lemmas above give the attempts, the pauses
  and the stop. The choice of the message goes by the text of the error, and the text
  of an error that the server reports is the server's: when each of the three POSTs is
  answered with status 200 and the body
  \<open>{success: false, error: "NetworkError: storage backend unreachable"}\<close>, every
  fetch has connected and the attempt itself throws a \<open>Server error: ...\<close>, yet the
  call raises the connection-failure message.
\<close>

theorem saveCookiesToFile_reports_rejection_as_no_connection:
  "post rejecting_world 3 = Resolved rejection
   \<and> post_attempt (post rejecting_world 3)
       = Inl (JsError ''Error'' ''Server error: NetworkError: storage backend unreachable'')
   \<and> length (filter is_post (fst (saveCookiesToFile rejecting_world [] ''all_cookies''))) = 3
   \<and> snd (saveCookiesToFile rejecting_world [] ''all_cookies'')
       = Inl (JsError ''Error'' cannot_connect_message)"
proof -
  have att: "post_attempt (Resolved rejection)
      = Inl (JsError ''Error'' ''Server error: NetworkError: storage backend unreachable'')"
    by (simp add: post_attempt_def rejection_def or_default_def)
  have p: "post rejecting_world = (\<lambda>n. Resolved rejection)"
    by (simp add: rejecting_world_def sample_world_def)
  have fin: "final_error (JsError ''Error'' ''Server error: NetworkError: storage backend unreachable'')
      = JsError ''Error'' cannot_connect_message"
    by (simp add: final_error_def)
  show ?thesis
    by (simp add: saveCookiesToFile_def Let_def p att fin
        save_attempts_three_failures [where p = "\<lambda>n. Resolved rejection", OF att att att]
        del: One_nat_def)
qed

section \<open>Properties of the extraction\<close>

lemma fst_rethrow: "fst (rethrow l m) = fst m"
  by (simp add: rethrow_def split: prod.splits sum.splits)

lemma snd_rethrow_Inr: "snd (rethrow l m) = Inr x \<longleftrightarrow> snd m = Inr x"
  by (auto simp add: rethrow_def split: prod.splits sum.splits)

lemma extractAllCookies_probe_first: "take 1 (fst (extractAllCookies w)) = [StatusProbe]"
  by (simp add: extractAllCookies_def fst_rethrow checkServerAvailability_def Let_def
      split: sum.splits prod.splits)

lemma extractCurrentDomainCookies_probe_first:
  "take 1 (fst (extractCurrentDomainCookies w url)) = [StatusProbe]"
  by (simp add: extractCurrentDomainCookies_def fst_rethrow checkServerAvailability_def Let_def
      split: sum.splits prod.splits)

lemma extractAllCookies_server_down:
  "\<not> snd (checkServerAvailability w) \<Longrightarrow>
     extractAllCookies w =
       ([StatusProbe],
        Inl (JsError ''Error'' (''Failed to extract all cookies: '' @ not_running_message)))"
  by (simp add: extractAllCookies_def rethrow_def checkServerAvailability_def)

lemma extractCurrentDomainCookies_server_down:
  "\<not> snd (checkServerAvailability w) \<Longrightarrow>
     extractCurrentDomainCookies w url =
       ([StatusProbe],
        Inl (JsError ''Error'' (''Failed to extract domain cookies: '' @ not_running_message)))"
  by (simp add: extractCurrentDomainCookies_def rethrow_def checkServerAvailability_def)

text \<open>
  C4. Both extraction calls begin with the probe of the status path. When the probe does
  not return a success status, the call fails with the server-not-running error, and the
  probe is its only effect: no POST is attempted and the cookie store is not read.
\<close>

theorem failed_probe_fails_extraction_without_post:
  "take 1 (fst (extractAllCookies w)) = [StatusProbe]
   \<and> take 1 (fst (extractCurrentDomainCookies w url)) = [StatusProbe]
   \<and> (\<not> snd (checkServerAvailability w) \<longrightarrow>
        extractAllCookies w =
          ([StatusProbe],
           Inl (JsError ''Error'' (''Failed to extract all cookies: '' @ not_running_message)))
        \<and> extractCurrentDomainCookies w url =
          ([StatusProbe],
           Inl (JsError ''Error'' (''Failed to extract domain cookies: '' @ not_running_message)))
        \<and> filter is_post (fst (extractAllCookies w)) = []
        \<and> filter is_post (fst (extractCurrentDomainCookies w url)) = []
        \<and> filter is_read (fst (extractAllCookies w)) = []
        \<and> filter is_read (fst (extractCurrentDomainCookies w url)) = [])"
  by (simp add: extractAllCookies_probe_first extractCurrentDomainCookies_probe_first
      extractAllCookies_server_down extractCurrentDomainCookies_server_down del: One_nat_def)

theorem failed_probe_fails_extraction_without_post_witness:
  "\<not> snd (checkServerAvailability down_world)
   \<and> fst (extractAllCookies down_world) = [StatusProbe]
   \<and> fst (extractCurrentDomainCookies down_world ''https://x.com/home'') = [StatusProbe]
   \<and> snd (extractAllCookies down_world) =
       Inl (JsError ''Error'' (''Failed to extract all cookies: '' @ not_running_message))
   \<and> snd (extractCurrentDomainCookies down_world ''https://x.com/home'') =
       Inl (JsError ''Error'' (''Failed to extract domain cookies: '' @ not_running_message))"
proof -
  have down: "\<not> snd (checkServerAvailability down_world)"
    by (simp add: checkServerAvailability_def down_world_def sample_world_def unavailable_def)
  from failed_probe_fails_extraction_without_post [of down_world "''https://x.com/home''"] down
  have "extractAllCookies down_world =
          ([StatusProbe],
           Inl (JsError ''Error'' (''Failed to extract all cookies: '' @ not_running_message)))"
    and "extractCurrentDomainCookies down_world ''https://x.com/home'' =
          ([StatusProbe],
           Inl (JsError ''Error'' (''Failed to extract domain cookies: '' @ not_running_message)))"
    by blast+
  with down show ?thesis
    by simp
qed

lemma length_js_split: "length (js_split sep s) = Suc (count_list s sep)"
  by (induction s) (auto split: list.splits)

lemma js_join_Cons_Cons: "js_join sep ((c # u) # ws) = c # js_join sep (u # ws)"
  by (cases ws) simp_all

lemma js_join_js_split: "js_join sep (js_split sep s) = s"
proof (induction s)
  case Nil
  then show ?case by simp
next
  case (Cons c cs)
  obtain u ws where parts: "js_split sep cs = u # ws"
    using length_js_split [of sep cs] by (cases "js_split sep cs") simp_all
  with Cons show ?case
    by (simp add: js_join_Cons_Cons)
qed

lemma js_join_drop_js_split:
  "js_join sep (drop 1 (js_split sep s)) = drop 1 (dropWhile (\<lambda>c. c \<noteq> sep) s)"
proof (induction s)
  case Nil
  then show ?case by simp
next
  case (Cons c cs)
  obtain u ws where parts: "js_split sep cs = u # ws"
    using length_js_split [of sep cs] by (cases "js_split sep cs") simp_all
  show ?case
  proof (cases "c = sep")
    case True
    then show ?thesis
      using js_join_js_split [of sep cs] by simp
  next
    case False
    with Cons parts show ?thesis
      by simp
  qed
qed

lemma domainCookies_merged:
  assumes "getAll w (Some h) = Inr exact"
    and "2 < label_count h \<Longrightarrow> getAll w (Some (drop_leftmost_label h)) = Inr parent"
  shows "domainCookies w h =
     (if 2 < label_count h
      then ([CookiesGetAll (Some h), CookiesGetAll (Some (drop_leftmost_label h))],
            Inr (exact @ parent))
      else ([CookiesGetAll (Some h)], Inr exact))"
proof -
  have parts: "length (js_split (CHR ''.'') h) = label_count h"
    by (simp add: length_js_split label_count_def)
  have parent_name: "js_join (CHR ''.'') (drop 1 (js_split (CHR ''.'') h)) = drop_leftmost_label h"
    by (simp only: js_join_drop_js_split drop_leftmost_label_def)
  show ?thesis
  proof (cases "2 < label_count h")
    case True
    with assms parts parent_name show ?thesis
      by (simp add: domainCookies_def Let_def del: One_nat_def)
  next
    case False
    with assms(1) parts show ?thesis
      by (simp add: domainCookies_def Let_def del: One_nat_def)
  qed
qed

lemma extractCurrentDomainCookies_after_reads:
  assumes "snd (checkServerAvailability w)"
    and "url_hostname w url = Inr h"
    and "domainCookies w h = (reads, Inr merged)"
  shows "fst (extractCurrentDomainCookies w url) =
           StatusProbe # reads
             @ fst (saveCookiesToFile w
                     (processCookies (toISOString w) (removeDuplicateCookies merged))
                     (''cookies_'' @ h))"
    and "snd (extractCurrentDomainCookies w url) = Inr res \<Longrightarrow>
           res = \<lparr>dom_domain = h, dom_total = length (removeDuplicateCookies merged),
                  dom_cookies = processCookies (toISOString w) (removeDuplicateCookies merged),
                  dom_timestamp = clock w 2\<rparr>"
  using assms
  by (auto simp add: extractCurrentDomainCookies_def rethrow_def checkServerAvailability_def
      Let_def split: prod.splits sum.splits)

lemma dedup_sample:
  "removeDuplicateCookies [deep_cookie, deep_cookie, mid_cookie] = [deep_cookie, mid_cookie]"
  by (simp add: removeDuplicateCookies_def cookie_key_def deep_cookie_def mid_cookie_def)

lemma sample_delivery: "snd (saveCookiesToFile sample_world cs f) = Inr ()"
  by (simp add: saveCookiesToFile_def Let_def save_attempts_unrolled sample_world_def
      post_attempt_def accepted_def del: One_nat_def)

lemma sample_result:
  "snd (extractCurrentDomainCookies sample_world ''https://a.b.example.com/inbox'')
     = Inr \<lparr>dom_domain = ''a.b.example.com'', dom_total = 2,
            dom_cookies = processCookies sample_iso [deep_cookie, mid_cookie],
            dom_timestamp = ''2026-11-03T10:00:00.000Z''\<rparr>"
proof -
  have up: "snd (checkServerAvailability sample_world)"
    by (simp add: checkServerAvailability_def sample_world_def accepted_def)
  have host: "url_hostname sample_world ''https://a.b.example.com/inbox'' = Inr ''a.b.example.com''"
    by (simp add: sample_world_def sample_hostname_def)
  have dc: "domainCookies sample_world ''a.b.example.com''
      = ([CookiesGetAll (Some ''a.b.example.com''), CookiesGetAll (Some ''b.example.com'')],
         Inr [deep_cookie, deep_cookie, mid_cookie])"
    by (simp add: domainCookies_def sample_world_def sample_store_def Let_def)
  have fields: "toISOString sample_world = sample_iso" "clock sample_world 2 = ''2026-11-03T10:00:00.000Z''"
    by (simp_all add: sample_world_def)
  have probe: "checkServerAvailability sample_world = ([StatusProbe], True)"
    by (simp add: checkServerAvailability_def sample_world_def accepted_def)
  obtain tr where saved:
    "saveCookiesToFile sample_world (processCookies sample_iso [deep_cookie, mid_cookie])
       ''cookies_a.b.example.com'' = (tr, Inr ())"
    using sample_delivery [of "processCookies sample_iso [deep_cookie, mid_cookie]"
        "''cookies_a.b.example.com''"]
    by (cases "saveCookiesToFile sample_world (processCookies sample_iso [deep_cookie, mid_cookie])
        ''cookies_a.b.example.com''") simp
  show ?thesis
    by (simp add: extractCurrentDomainCookies_def rethrow_def probe host dc dedup_sample fields
        saved Let_def del: One_nat_def)
qed


text \<open>
  C6. A domain-scoped extraction reads the cookies of the resolved host name and, if and
  only if the host name has more than two dot-separated labels, those of the host name
  without its leftmost label; the merged list is the first result followed by the
  second, and it is this list that is deduplicated and processed.
\<close>

theorem domain_extraction_reads_host_and_parent:
  assumes "snd (checkServerAvailability w)"
    and "url_hostname w url = Inr h"
    and "getAll w (Some h) = Inr exact"
    and "2 < label_count h \<Longrightarrow> getAll w (Some (drop_leftmost_label h)) = Inr parent"
  shows "length (js_split (CHR ''.'') h) = label_count h
    \<and> filter is_read (fst (extractCurrentDomainCookies w url)) =
        (if 2 < label_count h
         then [CookiesGetAll (Some h), CookiesGetAll (Some (drop_leftmost_label h))]
         else [CookiesGetAll (Some h)])
    \<and> snd (domainCookies w h) = Inr (if 2 < label_count h then exact @ parent else exact)
    \<and> (\<forall>res. snd (extractCurrentDomainCookies w url) = Inr res \<longrightarrow>
          dom_domain res = h
          \<and> dom_total res
              = length (removeDuplicateCookies (if 2 < label_count h then exact @ parent else exact))
          \<and> dom_cookies res
              = processCookies (toISOString w)
                  (removeDuplicateCookies (if 2 < label_count h then exact @ parent else exact)))"
proof -
  let ?reads = "if 2 < label_count h
     then [CookiesGetAll (Some h), CookiesGetAll (Some (drop_leftmost_label h))]
     else [CookiesGetAll (Some h)]"
  let ?merged = "if 2 < label_count h then exact @ parent else exact"
  have dc: "domainCookies w h = (?reads, Inr ?merged)"
    using domainCookies_merged [OF assms(3) assms(4)] by simp
  have "length (js_split (CHR ''.'') h) = label_count h"
    by (simp add: length_js_split label_count_def)
  moreover have "filter is_read (fst (extractCurrentDomainCookies w url)) = ?reads"
    by (simp add: extractCurrentDomainCookies_after_reads(1) [OF assms(1) assms(2) dc]
        saveCookiesToFile_no_read)
  moreover have "snd (domainCookies w h) = Inr ?merged"
    by (simp add: dc)
  moreover have "\<forall>res. snd (extractCurrentDomainCookies w url) = Inr res \<longrightarrow>
          dom_domain res = h
          \<and> dom_total res = length (removeDuplicateCookies ?merged)
          \<and> dom_cookies res = processCookies (toISOString w) (removeDuplicateCookies ?merged)"
  proof (intro allI impI)
    fix res
    assume "snd (extractCurrentDomainCookies w url) = Inr res"
    from extractCurrentDomainCookies_after_reads(2) [OF assms(1) assms(2) dc this]
    have "res = \<lparr>dom_domain = h, dom_total = length (removeDuplicateCookies ?merged),
        dom_cookies = processCookies (toISOString w) (removeDuplicateCookies ?merged),
        dom_timestamp = clock w 2\<rparr>" .
    then show "dom_domain res = h
        \<and> dom_total res = length (removeDuplicateCookies ?merged)
        \<and> dom_cookies res = processCookies (toISOString w) (removeDuplicateCookies ?merged)"
      by (simp del: One_nat_def)
  qed
  ultimately show ?thesis
    by blast
qed

theorem domain_extraction_reads_host_and_parent_witness:
  "snd (checkServerAvailability sample_world)
   \<and> url_hostname sample_world ''https://a.b.example.com/inbox'' = Inr ''a.b.example.com''
   \<and> label_count ''a.b.example.com'' = 4
   \<and> drop_leftmost_label ''a.b.example.com'' = ''b.example.com''
   \<and> filter is_read (fst (extractCurrentDomainCookies sample_world ''https://a.b.example.com/inbox''))
       = [CookiesGetAll (Some ''a.b.example.com''), CookiesGetAll (Some ''b.example.com'')]
   \<and> snd (domainCookies sample_world ''a.b.example.com'')
       = Inr [deep_cookie, deep_cookie, mid_cookie]
   \<and> label_count ''x.com'' = 2
   \<and> filter is_read (fst (extractCurrentDomainCookies sample_world ''https://x.com/home''))
       = [CookiesGetAll (Some ''x.com'')]
   \<and> snd (domainCookies sample_world ''x.com'') = Inr [sample_cookie, plain_cookie]
   \<and> snd (extractCurrentDomainCookies sample_world ''https://a.b.example.com/inbox'')
       = Inr \<lparr>dom_domain = ''a.b.example.com'', dom_total = 2,
              dom_cookies = processCookies sample_iso [deep_cookie, mid_cookie],
              dom_timestamp = ''2026-11-03T10:00:00.000Z''\<rparr>"
proof -
  have up: "snd (checkServerAvailability sample_world)"
    by (simp add: checkServerAvailability_def sample_world_def accepted_def)
  have host: "url_hostname sample_world ''https://a.b.example.com/inbox'' = Inr ''a.b.example.com''"
    by (simp add: sample_world_def sample_hostname_def)
  have host': "url_hostname sample_world ''https://x.com/home'' = Inr ''x.com''"
    by (simp add: sample_world_def sample_hostname_def)
  have labels: "label_count ''a.b.example.com'' = 4" "label_count ''x.com'' = 2"
    by (simp_all add: label_count_def)
  have parent: "drop_leftmost_label ''a.b.example.com'' = ''b.example.com''"
    by (simp add: drop_leftmost_label_def)
  have exact: "getAll sample_world (Some ''a.b.example.com'') = Inr [deep_cookie]"
    by (simp add: sample_world_def sample_store_def)
  have above: "getAll sample_world (Some (drop_leftmost_label ''a.b.example.com''))
      = Inr [deep_cookie, mid_cookie]"
    by (simp add: parent sample_world_def sample_store_def)
  have exact': "getAll sample_world (Some ''x.com'') = Inr [sample_cookie, plain_cookie]"
    by (simp add: sample_world_def sample_store_def)
  have no_parent: "2 < label_count ''x.com'' \<Longrightarrow>
      getAll sample_world (Some (drop_leftmost_label ''x.com'')) = Inr []"
    by (simp add: labels)
  note deep = domain_extraction_reads_host_and_parent [OF up host exact above]
  note flat = domain_extraction_reads_host_and_parent [OF up host' exact' no_parent]
  from deep have
    "filter is_read (fst (extractCurrentDomainCookies sample_world ''https://a.b.example.com/inbox''))
       = [CookiesGetAll (Some ''a.b.example.com''), CookiesGetAll (Some ''b.example.com'')]"
    and "snd (domainCookies sample_world ''a.b.example.com'')
       = Inr [deep_cookie, deep_cookie, mid_cookie]"
    by (simp_all add: labels parent)
  moreover from flat have
    "filter is_read (fst (extractCurrentDomainCookies sample_world ''https://x.com/home''))
       = [CookiesGetAll (Some ''x.com'')]"
    and "snd (domainCookies sample_world ''x.com'') = Inr [sample_cookie, plain_cookie]"
    by (simp_all add: labels)
  ultimately show ?thesis
    using up host labels parent sample_result by simp
qed

end
